theory Spec2Isabelle
  imports Main
begin

section \<open>Python values, exceptions and string operations\<close>

text \<open>
  The authentication core of the backend handles JSON-like Python values: the claims of a
  token, the user context stored in \<open>request.state.user\<close>, the bodies of JSON responses.
  A dict is an association list read with \<open>map_of\<close>. A \<open>datetime\<close> is a number of
  microseconds since the epoch (naive UTC, as \<open>datetime.utcnow()\<close> returns it).
  Characters are the 256 code points of Latin-1, which is how Starlette decodes header
  values; floating-point claim values are outside the model.
\<close>

datatype pyval =
    PNone
  | PBool bool
  | PInt int
  | PStr string
  | PList "pyval list"
  | PDict "(string \<times> pyval) list"
  | PDatetime int

type_synonym pydict = "(string \<times> pyval) list"

text \<open>
  Exceptions. \<open>ExpiredSignatureError\<close> and \<open>JWTClaimsError\<close> are subclasses of
  \<open>JWTError\<close> in python-jose, so \<open>except JWTError\<close> catches the three of them.
\<close>

datatype pyexn =
    JWTError
  | ExpiredSignatureError
  | JWTClaimsError
  | HTTPException nat string
  | ValueError
  | TypeError
  | KeyError string
  | IndexError
  | RecursionError
  | MultipleResultsFound
  | OtherException string

fun isinstance_JWTError :: "pyexn \<Rightarrow> bool" where
  "isinstance_JWTError JWTError = True"
| "isinstance_JWTError ExpiredSignatureError = True"
| "isinstance_JWTError JWTClaimsError = True"
| "isinstance_JWTError _ = False"

text \<open>Truth value testing, as \<open>not x\<close> and \<open>if x\<close> use it.\<close>

fun py_truthy :: "pyval \<Rightarrow> bool" where
  "py_truthy PNone = False"
| "py_truthy (PBool b) = b"
| "py_truthy (PInt i) = (i \<noteq> 0)"
| "py_truthy (PStr s) = (s \<noteq> [])"
| "py_truthy (PList xs) = (xs \<noteq> [])"
| "py_truthy (PDict d) = (d \<noteq> [])"
| "py_truthy (PDatetime t) = True"

text \<open>\<open>d.get(k, default)\<close> and \<open>d[k]\<close>.\<close>

definition dict_get :: "pydict \<Rightarrow> string \<Rightarrow> pyval \<Rightarrow> pyval" where
  "dict_get d k dflt = (case map_of d k of None \<Rightarrow> dflt | Some v \<Rightarrow> v)"

definition dict_item :: "pydict \<Rightarrow> string \<Rightarrow> pyexn + pyval" where
  "dict_item d k = (case map_of d k of None \<Rightarrow> Inl (KeyError k) | Some v \<Rightarrow> Inr v)"

text \<open>\<open>s.startswith(p)\<close>.\<close>

definition startswith :: "string \<Rightarrow> string \<Rightarrow> bool" where
  "startswith s p = (take (length p) s = p)"

text \<open>
  \<open>str.strip()\<close> removes the whitespace of \<open>str.isspace\<close> at both ends; among the
  Latin-1 code points these are 9..13, 28..32, 133 and 160.
\<close>

definition py_isspace :: "char \<Rightarrow> bool" where
  "py_isspace c = (let n = (of_char c :: nat) in
     (9 \<le> n \<and> n \<le> 13) \<or> (28 \<le> n \<and> n \<le> 32) \<or> n = 133 \<or> n = 160)"

definition py_strip :: "string \<Rightarrow> string" where
  "py_strip s = rev (dropWhile py_isspace (rev (dropWhile py_isspace s)))"

text \<open>\<open>s.split(" ", 1)\<close>: at most one split, at the first space.\<close>

definition py_split1 :: "string \<Rightarrow> string list" where
  "py_split1 s =
     (if CHR '' '' \<in> set s
      then [takeWhile (\<lambda>c. c \<noteq> CHR '' '') s, tl (dropWhile (\<lambda>c. c \<noteq> CHR '' '') s)]
      else [s])"

text \<open>\<open>s.split(" ")\<close>: a split at every space, empty pieces kept.\<close>

fun py_split :: "string \<Rightarrow> string list" where
  "py_split [] = [[]]"
| "py_split (c # cs) =
     (if c = CHR '' '' then [] # py_split cs
      else (case py_split cs of [] \<Rightarrow> [[c]] | w # ws \<Rightarrow> (c # w) # ws))"

text \<open>\<open>xs[i]\<close> for a non-negative index: out of range raises \<open>IndexError\<close>.\<close>

definition py_index :: "'a list \<Rightarrow> nat \<Rightarrow> pyexn + 'a" where
  "py_index xs i = (if i < length xs then Inr (xs ! i) else Inl IndexError)"

text \<open>
  \<open>needle in haystack\<close> for a \<open>str\<close> needle: membership by equality in a list, substring
  test in a string, key test in a dict, \<open>TypeError\<close> for a value that is not a container.
\<close>

fun is_substring :: "string \<Rightarrow> string \<Rightarrow> bool" where
  "is_substring s [] = (s = [])"
| "is_substring s (c # cs) = (startswith (c # cs) s \<or> is_substring s cs)"

fun str_in :: "string \<Rightarrow> pyval \<Rightarrow> pyexn + bool" where
  "str_in s (PList xs) = Inr (PStr s \<in> set xs)"
| "str_in s (PStr t) = Inr (is_substring s t)"
| "str_in s (PDict d) = Inr (s \<in> fst ` set d)"
| "str_in s _ = Inl TypeError"

section \<open>Requests and responses\<close>

text \<open>
  Of a request the authentication core reads the method, the path and
  \<open>request.headers.get("Authorization")\<close>, and it reads and writes \<open>request.state.user\<close>
  (\<open>None\<close> while the attribute is unset).
\<close>

record request =
  "method" :: string
  path :: string
  authorization :: "string option"
  state_user :: "pydict option"

datatype response = JSONResponse nat pydict

text \<open>
  A middleware either returns a response of its own, hands the request to the next stage
  (\<open>return await call_next(request)\<close>), or lets an exception escape.
\<close>

datatype outcome = Return response | CallNext request | Raise pyexn

definition detail :: "string \<Rightarrow> pydict" where
  "detail msg = [(''detail'', PStr msg)]"

section \<open>Authorization gate: \<open>require_permission\<close>\<close>

text \<open>
  \<open>app/core/permissions.py\<close> and \<open>app/utils/decorators.py\<close> each define
  \<open>require_permission(action, resource)\<close>, returning the closure \<open>permission_checker\<close>.
  The argument \<open>user\<close> is \<open>getattr(request.state, "user", None)\<close>.
\<close>

definition permission_checker :: "string \<Rightarrow> string \<Rightarrow> pydict option \<Rightarrow> pyexn + bool" where
  "permission_checker action resource user =
     (case user of
        None \<Rightarrow> Inl (HTTPException 401 ''Authentication required'')
      | Some u \<Rightarrow>
          if u = [] then Inl (HTTPException 401 ''Authentication required'')
          else
            let role = dict_get u ''role'' PNone;
                permissions = dict_get u ''permissions'' (PList [])
            in if role = PStr ''ADMIN'' then Inr True
               else
                 let required_permission = action @ '':'' @ resource
                 in (case str_in required_permission permissions of
                       Inl e \<Rightarrow> Inl e
                     | Inr present \<Rightarrow>
                         if \<not> present
                         then Inl (HTTPException 403
                                ''You do not have permission to perform this action'')
                         else Inr True))"

definition require_permission :: "string \<Rightarrow> string \<Rightarrow> request \<Rightarrow> pyexn + bool" where
  "require_permission action resource req = permission_checker action resource (state_user req)"

text \<open>The copy in \<open>app/utils/decorators.py\<close>, the one the routes import.\<close>

definition permission_checker_decorators ::
  "string \<Rightarrow> string \<Rightarrow> pydict option \<Rightarrow> pyexn + bool" where
  "permission_checker_decorators action resource user =
     (case user of
        None \<Rightarrow> Inl (HTTPException 401 ''Authentication required'')
      | Some u \<Rightarrow>
          if u = [] then Inl (HTTPException 401 ''Authentication required'')
          else
            let role = dict_get u ''role'' PNone;
                permissions = dict_get u ''permissions'' (PList [])
            in if role = PStr ''ADMIN'' then Inr True
               else
                 let required_permission = action @ '':'' @ resource
                 in (case str_in required_permission permissions of
                       Inl e \<Rightarrow> Inl e
                     | Inr present \<Rightarrow>
                         if \<not> present
                         then Inl (HTTPException 403
                                ''You do not have permission to perform this action'')
                         else Inr True))"

section \<open>Integers and text\<close>

text \<open>
  \<open>int(s)\<close> for a string: surrounding whitespace is dropped, one sign is allowed, and
  the rest is a non-empty run of decimal digits in which single underscores may separate
  digits. Anything else raises \<open>ValueError\<close>, and so does a literal of more than 4300
  digits (the interpreter's default limit on integer string conversion). The whitespace
  \<open>int\<close> drops is narrower than that of \<open>str.strip()\<close>: among the Latin-1 code points
  it is 9..13, 32, 133 and 160, and not 28..31.
\<close>

definition py_int_isspace :: "char \<Rightarrow> bool" where
  "py_int_isspace c = (let n = (of_char c :: nat) in
     (9 \<le> n \<and> n \<le> 13) \<or> n = 32 \<or> n = 133 \<or> n = 160)"

definition py_int_strip :: "string \<Rightarrow> string" where
  "py_int_strip s = rev (dropWhile py_int_isspace (rev (dropWhile py_int_isspace s)))"

definition is_digit :: "char \<Rightarrow> bool" where
  "is_digit c = (let n = (of_char c :: nat) in 48 \<le> n \<and> n \<le> 57)"

definition digit_val :: "char \<Rightarrow> int" where
  "digit_val c = int (of_char c) - 48"

fun strip_underscores :: "string \<Rightarrow> string option" where
  "strip_underscores [] = None"
| "strip_underscores [c] = (if is_digit c then Some [c] else None)"
| "strip_underscores (c # d # cs) =
     (if is_digit c
      then (if d = CHR ''_'' then map_option (Cons c) (strip_underscores cs)
            else map_option (Cons c) (strip_underscores (d # cs)))
      else None)"

definition decimal_value :: "string \<Rightarrow> int" where
  "decimal_value ds = foldl (\<lambda>a c. 10 * a + digit_val c) 0 ds"

definition py_int_str :: "string \<Rightarrow> int option" where
  "py_int_str s =
     (let t = py_int_strip s;
          negative = (t \<noteq> [] \<and> hd t = CHR ''-'');
          body = (if t \<noteq> [] \<and> (hd t = CHR ''-'' \<or> hd t = CHR ''+'') then tl t else t)
      in case strip_underscores body of
           None \<Rightarrow> None
         | Some ds \<Rightarrow>
             if length ds > 4300 then None
             else Some (if negative then - decimal_value ds else decimal_value ds))"

fun py_int :: "pyval \<Rightarrow> pyexn + int" where
  "py_int (PInt i) = Inr i"
| "py_int (PBool b) = Inr (if b then 1 else 0)"
| "py_int (PStr s) = (case py_int_str s of None \<Rightarrow> Inl ValueError | Some i \<Rightarrow> Inr i)"
| "py_int _ = Inl TypeError"

text \<open>\<open>str(n)\<close> for an integer.\<close>

definition digit_char :: "nat \<Rightarrow> char" where
  "digit_char n = ''0123456789'' ! n"

fun py_str_nat :: "nat \<Rightarrow> string" where
  "py_str_nat n =
     (if n < 10 then [digit_char n] else py_str_nat (n div 10) @ [digit_char (n mod 10)])"

declare py_str_nat.simps [simp del]

definition py_str :: "int \<Rightarrow> string" where
  "py_str i = (if i < 0 then CHR ''-'' # py_str_nat (nat (- i)) else py_str_nat (nat i))"

section \<open>Token codec: \<open>app/core/jwt.py\<close>\<close>

text \<open>
  The codec wraps two functions of the python-jose library, which is not part of the
  repository; they are parameters of the model. \<open>jwt_encode lib claims key algorithm\<close>
  stands for \<open>jwt.encode\<close>, and \<open>jwt_decode lib token key algorithms now\<close> for
  \<open>jwt.decode\<close>, run when the clock reads \<open>now\<close>; either can raise.
\<close>

record jose =
  jwt_encode :: "pydict \<Rightarrow> string \<Rightarrow> string \<Rightarrow> pyexn + string"
  jwt_decode :: "string \<Rightarrow> string \<Rightarrow> string list \<Rightarrow> int \<Rightarrow> pyexn + pydict"

definition ALGORITHM :: string where
  "ALGORITHM = ''HS256''"

definition ACCESS_TOKEN_EXPIRE_MINUTES :: int where
  "ACCESS_TOKEN_EXPIRE_MINUTES = 60"

text \<open>\<open>timedelta(minutes=m)\<close> in microseconds; \<open>timegm(d.utctimetuple())\<close> in whole seconds.\<close>

definition timedelta_minutes :: "int \<Rightarrow> int" where
  "timedelta_minutes m = m * 60 * 1000000"

definition timegm :: "int \<Rightarrow> int" where
  "timegm d = d div 1000000"

text \<open>\<open>d.update({k: v})\<close> on a copy of \<open>d\<close>.\<close>

fun dict_update :: "string \<Rightarrow> pyval \<Rightarrow> pydict \<Rightarrow> pydict" where
  "dict_update k v [] = [(k, v)]"
| "dict_update k v (p # ps) = (if fst p = k then (k, v) # ps else p # dict_update k v ps)"

text \<open>The local \<open>to_encode\<close> of \<open>create_access_token\<close>: the data and the expiry.\<close>

definition to_encode :: "int \<Rightarrow> pydict \<Rightarrow> pydict" where
  "to_encode now data =
     (let expire = now + timedelta_minutes ACCESS_TOKEN_EXPIRE_MINUTES
      in dict_update ''exp'' (PDatetime expire) data)"

definition create_access_token :: "jose \<Rightarrow> string \<Rightarrow> int \<Rightarrow> pydict \<Rightarrow> pyexn + string" where
  "create_access_token lib SECRET_KEY now data =
     jwt_encode lib (to_encode now data) SECRET_KEY ALGORITHM"

text \<open>
  \<open>decode_access_token\<close> returns the payload, or \<open>None\<close> when \<open>jwt.decode\<close> raised
  \<open>JWTError\<close> or one of its subclasses; any other exception escapes.
\<close>

definition decode_access_token ::
  "jose \<Rightarrow> string \<Rightarrow> int \<Rightarrow> string \<Rightarrow> pyexn + pydict option" where
  "decode_access_token lib SECRET_KEY now token =
     (case jwt_decode lib token SECRET_KEY [ALGORITHM] now of
        Inr payload \<Rightarrow> Inr (Some payload)
      | Inl e \<Rightarrow> if isinstance_JWTError e then Inr None else Inl e)"

section \<open>Authentication gate: \<open>AuthMiddleware.dispatch\<close>\<close>

definition PUBLIC_PATHS :: "string list" where
  "PUBLIC_PATHS = [''/api/auth'', ''/docs'', ''/redoc'', ''/openapi.json'', ''/health'']"

definition unauthorized :: "string \<Rightarrow> outcome" where
  "unauthorized msg = Return (JSONResponse 401 (detail msg))"

definition dispatch :: "jose \<Rightarrow> string \<Rightarrow> int \<Rightarrow> request \<Rightarrow> outcome" where
  "dispatch lib SECRET_KEY now req =
     (if method req = ''OPTIONS'' then CallNext req
      else if list_ex (startswith (path req)) PUBLIC_PATHS then CallNext req
      else
        (case authorization req of
           None \<Rightarrow> unauthorized ''Authorization header missing''
         | Some auth_header \<Rightarrow>
             if auth_header = [] then unauthorized ''Authorization header missing''
             else if \<not> startswith auth_header ''Bearer ''
             then unauthorized ''Invalid authorization format''
             else
               (case py_index (py_split1 auth_header) 1 of
                  Inl e \<Rightarrow> Raise e
                | Inr rest \<Rightarrow>
                    let token = py_strip rest
                    in if token = [] then unauthorized ''Token not provided''
                       else
                         (case decode_access_token lib SECRET_KEY now token of
                            Inl e \<Rightarrow>
                              if isinstance_JWTError e
                              then unauthorized ''Invalid or expired token''
                              else Raise e
                          | Inr None \<Rightarrow> unauthorized ''Invalid token payload''
                          | Inr (Some payload) \<Rightarrow>
                              if payload = [] then unauthorized ''Invalid token payload''
                              else
                                let user_id = dict_get payload ''sub'' PNone
                                in if \<not> py_truthy user_id
                                   then unauthorized ''User identity missing in token''
                                   else
                                     (case py_int user_id of
                                        Inl e \<Rightarrow> Raise e
                                      | Inr i \<Rightarrow>
                                          CallNext (req\<lparr>state_user := Some
                                            [(''id'', PInt i),
                                             (''role'', dict_get payload ''role'' (PStr ''USER'')),
                                             (''permissions'',
                                                dict_get payload ''permissions'' (PList []))]\<rparr>))))))"

section \<open>Credential verifier: \<open>UserRepository\<close> and \<open>AuthService.login\<close>\<close>

record role =
  name :: string

record user =
  id' :: int
  email :: string
  phone :: "string option"
  password_hash :: string
  is_active :: bool
  is_verified :: bool
  role :: role

text \<open>
  The database is the list of its user rows, each with the role row it joins.
  \<open>scalar_one_or_none()\<close> returns the only row, \<open>None\<close> when there is none, and raises
  \<open>MultipleResultsFound\<close> when there are several.
\<close>

definition scalar_one_or_none :: "'a list \<Rightarrow> pyexn + 'a option" where
  "scalar_one_or_none rows =
     (case rows of [] \<Rightarrow> Inr None | [r] \<Rightarrow> Inr (Some r) | _ \<Rightarrow> Inl MultipleResultsFound)"

definition get_user_for_login :: "user list \<Rightarrow> string \<Rightarrow> string \<Rightarrow> pyexn + user option" where
  "get_user_for_login db identifier role_name =
     scalar_one_or_none
       (filter (\<lambda>u. name (role u) = role_name \<and>
                     (email u = identifier \<or> phone u = Some identifier)) db)"

text \<open>The permission list \<open>login\<close> assigns to a role name.\<close>

definition role_permissions :: "string \<Rightarrow> string list" where
  "role_permissions role_name =
     (if role_name = ''ADMIN'' then [''admin:*'']
      else if role_name = ''COLLEGE_ADMIN''
      then [''view:college_dashboard'', ''view:students'', ''view:courses'']
      else if role_name = ''TEACHER'' then [''view:courses'', ''create:tests'']
      else if role_name = ''STUDENT'' then [''view:student_dashboard'']
      else [])"

text \<open>The claims \<open>login\<close> passes to \<open>create_access_token\<close>.\<close>

definition login_claims :: "user \<Rightarrow> pydict" where
  "login_claims u =
     (let role_name = name (role u)
      in [(''sub'', PStr (py_str (id' u))),
          (''role'', PStr role_name),
          (''permissions'', PList (map PStr (role_permissions role_name)))])"

text \<open>
  \<open>verify_password\<close> comes from \<open>app.core.security\<close>, which is not among the sources:
  it is a parameter, applied to the submitted password and the stored hash.
\<close>

definition login ::
  "jose \<Rightarrow> string \<Rightarrow> (string \<Rightarrow> string \<Rightarrow> bool) \<Rightarrow> int \<Rightarrow> user list \<Rightarrow>
   string \<Rightarrow> string \<Rightarrow> string \<Rightarrow> pyexn + pydict" where
  "login lib SECRET_KEY verify_password now db email_arg password role_arg =
     (case get_user_for_login db email_arg role_arg of
        Inl e \<Rightarrow> Inl e
      | Inr None \<Rightarrow> Inl (HTTPException 401 ''Invalid credentials for selected role'')
      | Inr (Some u) \<Rightarrow>
          if \<not> is_active u then Inl (HTTPException 403 ''User account is inactive'')
          else if \<not> is_verified u
          then Inl (HTTPException 403 ''User account is not verified'')
          else if \<not> verify_password password (password_hash u)
          then Inl (HTTPException 401 ''Invalid credentials'')
          else
            (case create_access_token lib SECRET_KEY now (login_claims u) of
               Inl e \<Rightarrow> Inl e
             | Inr access_token \<Rightarrow>
                 Inr [(''access_token'', PStr access_token),
                      (''token_type'', PStr ''bearer''),
                      (''role'', PStr (name (role u)))]))"

text \<open>
  \<open>register_exception_handlers\<close> installs the handler that renders every
  \<open>HTTPException\<close> raised by a route or a dependency.
\<close>

fun http_exception_handler :: "pyexn \<Rightarrow> response option" where
  "http_exception_handler (HTTPException status_code msg) =
     Some (JSONResponse status_code [(''success'', PBool False), (''message'', PStr msg)])"
| "http_exception_handler _ = None"

section \<open>The dependency \<open>get_current_user\<close>: \<open>app/core/dependencies.py\<close>\<close>

text \<open>
  \<open>get_by_id\<close> stands for \<open>UserRepository().get_by_id(db, \<cdot>)\<close>, the query by primary
  key against the database of the request: a parameter, applied to the value found under
  \<open>user_id\<close>.
\<close>

definition get_current_user ::
  "jose \<Rightarrow> string \<Rightarrow> int \<Rightarrow> (pyval \<Rightarrow> pyexn + user option) \<Rightarrow> request \<Rightarrow> pyexn + user" where
  "get_current_user lib SECRET_KEY now get_by_id req =
     (case authorization req of
        None \<Rightarrow> Inl (HTTPException 401 ''Access token missing'')
      | Some auth \<Rightarrow>
          if auth = [] \<or> \<not> startswith auth ''Bearer ''
          then Inl (HTTPException 401 ''Access token missing'')
          else
            (case py_index (py_split auth) 1 of
               Inl e \<Rightarrow> Inl e
             | Inr token \<Rightarrow>
                 (case decode_access_token lib SECRET_KEY now token of
                    Inl e \<Rightarrow> Inl e
                  | Inr None \<Rightarrow> Inl (HTTPException 401 ''Invalid token'')
                  | Inr (Some payload) \<Rightarrow>
                      if payload = [] then Inl (HTTPException 401 ''Invalid token'')
                      else
                        (case dict_item payload ''user_id'' of
                           Inl e \<Rightarrow> Inl e
                         | Inr user_id \<Rightarrow>
                             (case get_by_id user_id of
                                Inl e \<Rightarrow> Inl e
                              | Inr None \<Rightarrow> Inl (HTTPException 401 ''User inactive'')
                              | Inr (Some u) \<Rightarrow>
                                  if \<not> is_active u
                                  then Inl (HTTPException 401 ''User inactive'')
                                  else Inr u)))))"

section \<open>The library behind the codec\<close>

text \<open>
  Modelled from the spec: the signing of python-jose, which \<open>jwt.encode\<close> and
  \<open>jwt.decode\<close> rest on and which is not among the sources. A token is a compact signed
  string that carries its claims, signed with a shared secret by a fixed HMAC-based
  algorithm. \<open>sign_claims sg payload key algorithm\<close> is the signed string,
  \<open>verify_token sg token key algorithms\<close> is the payload of a well-formed token whose
  signature verifies under the key (\<open>None\<close> for a malformed token or a bad signature),
  and \<open>claims_of sg token\<close> is the payload a token carries, signature unchecked.
\<close>

record signing =
  sign_claims :: "pydict \<Rightarrow> string \<Rightarrow> string \<Rightarrow> string"
  verify_token :: "string \<Rightarrow> string \<Rightarrow> string list \<Rightarrow> pydict option"
  claims_of :: "string \<Rightarrow> pydict option"

text \<open>
  Modelled from the spec: the claims on the wire, where \<open>exp\<close> is a unix timestamp. A
  \<open>datetime\<close> under \<open>exp\<close>, \<open>iat\<close> or \<open>nbf\<close> becomes its whole seconds since the
  epoch.
\<close>

definition jose_payload :: "pydict \<Rightarrow> pydict" where
  "jose_payload claims =
     map (\<lambda>(k, v). (k, (case v of
                           PDatetime d \<Rightarrow>
                             if k \<in> set [''exp'', ''iat'', ''nbf''] then PInt (timegm d) else v
                         | _ \<Rightarrow> v))) claims"

text \<open>
  Modelled from the spec: \<open>jwt.encode\<close> and \<open>jwt.decode\<close> of python-jose, which are not
  among the sources. Issuing encodes the claims and the expiry timestamp into a signed
  string. Validation verifies signature and expiry: a malformed token or a bad signature
  is refused with \<open>JWTError\<close>, and a token whose \<open>exp\<close> lies before the second of the
  validation time with \<open>ExpiredSignatureError\<close>.
\<close>

definition spec_jose :: "signing \<Rightarrow> jose" where
  "spec_jose sg =
     \<lparr> jwt_encode = (\<lambda>claims key alg. Inr (sign_claims sg (jose_payload claims) key alg)),
       jwt_decode = (\<lambda>token key algs now.
         case verify_token sg token key algs of
           None \<Rightarrow> Inl JWTError
         | Some payload \<Rightarrow>
             (case map_of payload ''exp'' of
                Some (PInt e) \<Rightarrow>
                  if e < timegm now then Inl ExpiredSignatureError else Inr payload
              | _ \<Rightarrow> Inr payload)) \<rparr>"

text \<open>A token signed from a payload verifies, under the same key and algorithm, to that payload.\<close>

definition signature_verifies :: "signing \<Rightarrow> pydict \<Rightarrow> string \<Rightarrow> string \<Rightarrow> bool" where
  "signature_verifies sg payload key alg \<longleftrightarrow>
     verify_token sg (sign_claims sg payload key alg) key [alg] = Some payload"

text \<open>Verification returns the payload the token carries, never another one.\<close>

definition verifies_carried_claims :: "signing \<Rightarrow> bool" where
  "verifies_carried_claims sg \<longleftrightarrow>
     (\<forall>token key algs payload.
        verify_token sg token key algs = Some payload \<longrightarrow> claims_of sg token = Some payload)"

text \<open>
  Small instances to run the theorems on. Both know one token \<open>tok\<close>, signed under
  \<open>key\<close> with HS256 and carrying the payload \<open>c\<close>; any other token and any other key
  is refused, and so is the token itself once its \<open>exp\<close> has passed.
\<close>

definition single_token_signing :: "string \<Rightarrow> string \<Rightarrow> pydict \<Rightarrow> signing" where
  "single_token_signing tok key c =
     \<lparr> sign_claims = (\<lambda>payload k alg. tok),
       verify_token = (\<lambda>token k algs.
         if token = tok \<and> k = key \<and> ''HS256'' \<in> set algs then Some c else None),
       claims_of = (\<lambda>token. if token = tok then Some c else None) \<rparr>"

definition single_token_jose :: "string \<Rightarrow> string \<Rightarrow> pydict \<Rightarrow> jose" where
  "single_token_jose tok key c =
     \<lparr> jwt_encode = (\<lambda>claims k alg. Inr tok),
       jwt_decode = (\<lambda>token k algs t.
         if token = tok \<and> k = key \<and> ''HS256'' \<in> set algs
         then (case map_of c ''exp'' of
                 Some (PInt e) \<Rightarrow> if e < timegm t then Inl ExpiredSignatureError else Inr c
               | _ \<Rightarrow> Inr c)
         else Inl JWTError) \<rparr>"

text \<open>
  A library with one behaviour of python-jose itself added to it. python-jose reads the
  header segment of a token with \<open>json.loads\<close> and turns only \<open>ValueError\<close> into its
  own error; for a header nested deeper than the interpreter's recursion limit
  \<open>json.loads\<close> raises \<open>RecursionError\<close>, which is no \<open>ValueError\<close>.
  \<open>nested_header_token\<close> is such a token: its header segment is the base64 text of 1200
  opening brackets.
\<close>

definition nested_header_token :: string where
  "nested_header_token = concat (replicate 400 ''W1tb'') @ ''.e30.AA''"

definition raises_on_nested_header :: "jose \<Rightarrow> jose" where
  "raises_on_nested_header lib =
     lib\<lparr>jwt_decode := (\<lambda>token key algs now.
       if token = nested_header_token then Inl RecursionError
       else jwt_decode lib token key algs now)\<rparr>"

text \<open>The requests the authentication gate lets through unexamined.\<close>

definition exempt :: "request \<Rightarrow> bool" where
  "exempt req \<longleftrightarrow> method req = ''OPTIONS'' \<or> list_ex (startswith (path req)) PUBLIC_PATHS"

section \<open>Example inputs\<close>

text \<open>A request to a protected route, with the given \<open>Authorization\<close> header.\<close>

definition protected_request :: "string option \<Rightarrow> request" where
  "protected_request h =
     \<lparr>method = ''GET'', path = ''/api/admin/courses'', authorization = h, state_user = None\<rparr>"

text \<open>A database of three students: one in good standing, one inactive, one unverified.\<close>

definition example_db :: "user list" where
  "example_db =
     [\<lparr>id' = 42, email = ''ann@crt.example'', phone = None, password_hash = ''hash-ann'',
       is_active = True, is_verified = True, role = \<lparr>name = ''STUDENT''\<rparr>\<rparr>,
      \<lparr>id' = 43, email = ''bob@crt.example'', phone = None, password_hash = ''hash-bob'',
       is_active = False, is_verified = True, role = \<lparr>name = ''STUDENT''\<rparr>\<rparr>,
      \<lparr>id' = 44, email = ''cy@crt.example'', phone = Some ''5550100'', password_hash = ''hash-cy'',
       is_active = True, is_verified = False, role = \<lparr>name = ''STUDENT''\<rparr>\<rparr>]"

text \<open>A lookup by primary key in that database, for a value that denotes an integer.\<close>

definition example_get_by_id :: "pyval \<Rightarrow> pyexn + user option" where
  "example_get_by_id user_id =
     (case py_int user_id of
        Inl e \<Rightarrow> Inr None
      | Inr i \<Rightarrow> scalar_one_or_none (filter (\<lambda>u. id' u = i) example_db))"

text \<open>A password check that accepts \<open>pw\<close> against the stored \<open>hash-pw\<close>.\<close>

definition example_verify_password :: "string \<Rightarrow> string \<Rightarrow> bool" where
  "example_verify_password password hashed = (hashed = ''hash-'' @ password)"

section \<open>Helper lemmas\<close>

text \<open>After the test for the \<open>Bearer\<close> prefix, the split always has a second piece.\<close>

lemma bearer_split1:
  assumes "startswith h ''Bearer ''"
  shows "py_index (py_split1 h) 1 = Inr (drop 7 h)"
proof -
  have len: "length ''Bearer '' = 7" by simp
  from assms have "take (length ''Bearer '') h = ''Bearer ''" by (simp only: startswith_def)
  then have "h = ''Bearer '' @ drop (length ''Bearer '') h" by (metis append_take_drop_id)
  then obtain r where h: "h = ''Bearer '' @ r" and r: "r = drop 7 h" unfolding len by blast
  show ?thesis unfolding r[symmetric] by (simp add: h py_split1_def py_index_def)
qed

text \<open>A \<open>JWTError\<close> never escapes \<open>decode_access_token\<close>.\<close>

lemma decode_access_token_not_JWTError:
  "decode_access_token lib SECRET_KEY now token = Inl e \<Longrightarrow> \<not> isinstance_JWTError e"
  by (auto simp: decode_access_token_def split: sum.splits if_splits)

text \<open>A string that \<open>int\<close> accepts is not empty.\<close>

lemma py_int_str_nonempty: "py_int_str s = Some i \<Longrightarrow> s \<noteq> []"
  by (auto simp: py_int_str_def py_int_strip_def Let_def)

text \<open>The small signing instance returns only the payload its token carries.\<close>

lemma single_token_signing_carried: "verifies_carried_claims (single_token_signing tok key c)"
  by (simp add: verifies_carried_claims_def single_token_signing_def)

text \<open>Dict update, and the keys and values that the payload of a token keeps.\<close>

lemma map_of_dict_update: "map_of (dict_update k v d) = (map_of d)(k \<mapsto> v)"
  by (induction d) (auto simp: fun_eq_iff)

lemma map_of_jose_payload_None: "map_of (jose_payload c) k = None \<longleftrightarrow> map_of c k = None"
  by (induction c) (auto simp: jose_payload_def)

lemma map_of_jose_payload_other:
  "k \<notin> set [''exp'', ''iat'', ''nbf''] \<Longrightarrow> (\<forall>d. map_of c k \<noteq> Some (PDatetime d)) \<Longrightarrow>
   map_of (jose_payload c) k = map_of c k"
  by (induction c) (auto simp: jose_payload_def split: pyval.splits)

text \<open>The expiry on the wire is the whole second of the \<open>datetime\<close>.\<close>

lemma map_of_jose_payload_exp:
  "map_of c ''exp'' = Some (PDatetime d) \<Longrightarrow> map_of (jose_payload c) ''exp'' = Some (PInt (timegm d))"
  by (induction c) (auto simp: jose_payload_def)

text \<open>A string without a space is the only piece of its split.\<close>

lemma py_split_no_space: "CHR '' '' \<notin> set s \<Longrightarrow> py_split s = [s]"
  by (induction s) auto

lemma py_split_bearer:
  "CHR '' '' \<notin> set token \<Longrightarrow> py_index (py_split (''Bearer '' @ token)) 1 = Inr token"
  by (simp add: py_split_no_space py_index_def)

text \<open>Whole seconds are monotone in the instant.\<close>

lemma timegm_mono: "a \<le> b \<Longrightarrow> timegm a \<le> timegm b"
  by (simp add: timegm_def zdiv_mono1)


section \<open>The decimal text of an integer\<close>

text \<open>
  \<open>int(str(i))\<close> is \<open>i\<close> for every integer of at most 4300 digits: the subject that
  \<open>login\<close> writes into a token is one that the authentication gate can read back.
\<close>

lemma digit_char_cases:
  assumes "n < 10"
  shows "is_digit (digit_char n) \<and> digit_val (digit_char n) = int n \<and>
         digit_char n \<noteq> CHR ''_'' \<and> digit_char n \<noteq> CHR ''-'' \<and> digit_char n \<noteq> CHR ''+'' \<and>
         \<not> py_int_isspace (digit_char n)"
proof -
  from assms have "n \<in> {0, 1, 2, 3, 4, 5, 6, 7, 8, 9}" by auto
  then show ?thesis
    by (auto simp: digit_char_def is_digit_def digit_val_def py_int_isspace_def)
qed

lemma py_str_nat_digits: "py_str_nat n \<noteq> [] \<and> (\<forall>c \<in> set (py_str_nat n). is_digit c)"
proof (induction n rule: py_str_nat.induct)
  case (1 n)
  show ?case
  proof (cases "n < 10")
    case True
    then show ?thesis using digit_char_cases [of n] by (subst (1 2) py_str_nat.simps) simp
  next
    case False
    then have IH: "\<forall>c \<in> set (py_str_nat (n div 10)). is_digit c" using 1 by simp
    have "n mod 10 < 10" by simp
    then have "is_digit (digit_char (n mod 10))" using digit_char_cases by blast
    with IH False show ?thesis by (subst (1 2) py_str_nat.simps) auto
  qed
qed

lemma is_digit_not_special:
  "is_digit c \<Longrightarrow> c \<noteq> CHR ''_'' \<and> c \<noteq> CHR ''-'' \<and> c \<noteq> CHR ''+'' \<and> \<not> py_int_isspace c"
  by (auto simp: is_digit_def py_int_isspace_def Let_def)

lemma strip_underscores_digits:
  "ds \<noteq> [] \<Longrightarrow> \<forall>c \<in> set ds. is_digit c \<Longrightarrow> strip_underscores ds = Some ds"
proof (induction ds rule: strip_underscores.induct)
  case 1
  then show ?case by simp
next
  case (2 c)
  then show ?case by simp
next
  case (3 c d cs)
  then have "d \<noteq> CHR ''_''" using is_digit_not_special by auto
  with 3 show ?case by simp
qed

lemma decimal_value_snoc: "decimal_value (ds @ [c]) = 10 * decimal_value ds + digit_val c"
  by (simp add: decimal_value_def)

lemma decimal_value_py_str_nat: "decimal_value (py_str_nat n) = int n"
proof (induction n rule: py_str_nat.induct)
  case (1 n)
  show ?case
  proof (cases "n < 10")
    case True
    then show ?thesis using digit_char_cases [of n]
      by (subst py_str_nat.simps) (simp add: decimal_value_def)
  next
    case False
    have "n mod 10 < 10" by simp
    then have "digit_val (digit_char (n mod 10)) = int (n mod 10)" using digit_char_cases by blast
    with False 1 show ?thesis
      by (subst py_str_nat.simps) (simp add: decimal_value_snoc zmod_int zdiv_int)
  qed
qed

lemma length_py_str_nat: "n < 10 ^ k \<Longrightarrow> 0 < k \<Longrightarrow> length (py_str_nat n) \<le> k"
proof (induction n arbitrary: k rule: py_str_nat.induct)
  case (1 n)
  show ?case
  proof (cases "n < 10")
    case True
    with 1(3) show ?thesis by (subst py_str_nat.simps) simp
  next
    case False
    with 1(2) have "k \<noteq> 1" by auto
    with 1(3) obtain j where k: "k = Suc j" and j: "0 < j" by (cases k) auto
    from 1(2) have "n div 10 < 10 ^ j" by (simp add: k less_mult_imp_div_less mult.commute)
    with 1(1) False j have "length (py_str_nat (n div 10)) \<le> j" by simp
    with False show ?thesis by (subst py_str_nat.simps) (simp add: k)
  qed
qed

lemma py_int_strip_id:
  assumes "s \<noteq> []" and "\<not> py_int_isspace (hd s)" and "\<not> py_int_isspace (last s)"
  shows "py_int_strip s = s"
proof -
  from assms(1,2) have "dropWhile py_int_isspace s = s" by (cases s) auto
  moreover from assms(1,3) have "dropWhile py_int_isspace (rev s) = rev s"
    by (cases "rev s") (auto simp: hd_rev)
  ultimately show ?thesis by (simp add: py_int_strip_def)
qed

lemma py_int_str_py_str:
  assumes "\<bar>i\<bar> < 10 ^ k" and "0 < k" and "k \<le> 4300"
  shows "py_int_str (py_str i) = Some i"
proof -
  let ?ds = "py_str_nat (nat \<bar>i\<bar>)"
  have ne: "?ds \<noteq> []" and dig: "\<forall>c \<in> set ?ds. is_digit c" using py_str_nat_digits by auto
  have hd: "is_digit (hd ?ds)" and lst: "is_digit (last ?ds)" using ne dig by auto
  have su: "strip_underscores ?ds = Some ?ds" using ne dig by (rule strip_underscores_digits)
  have val: "decimal_value ?ds = \<bar>i\<bar>" by (simp add: decimal_value_py_str_nat)
  have "nat \<bar>i\<bar> < 10 ^ k" using assms(1) by (simp add: nat_less_iff)
  then have "length ?ds \<le> k" using assms(2) by (rule length_py_str_nat)
  with assms(3) have len: "\<not> 4300 < length ?ds" by simp
  show ?thesis
  proof (cases "i < 0")
    case True
    then have s: "py_str i = CHR ''-'' # ?ds" by (simp add: py_str_def abs_if)
    have "\<not> py_int_isspace (last (CHR ''-'' # ?ds))" using ne lst is_digit_not_special by simp
    moreover have "\<not> py_int_isspace (hd (CHR ''-'' # ?ds))" by (simp add: py_int_isspace_def)
    ultimately have st: "py_int_strip (CHR ''-'' # ?ds) = CHR ''-'' # ?ds"
      by (intro py_int_strip_id) simp_all
    from su val len True show ?thesis unfolding s py_int_str_def st by (simp add: Let_def)
  next
    case False
    then have s: "py_str i = ?ds" by (simp add: py_str_def abs_if)
    have st: "py_int_strip ?ds = ?ds"
      using ne hd lst is_digit_not_special by (intro py_int_strip_id) auto
    have "hd ?ds \<noteq> CHR ''-''" "hd ?ds \<noteq> CHR ''+''" using hd is_digit_not_special by auto
    with su val len False ne show ?thesis unfolding s py_int_str_def st by (simp add: Let_def)
  qed
qed

lemma login_subject_readable:
  assumes "\<bar>id' u\<bar> < 10 ^ k" and "0 < k" and "k \<le> 4300"
  shows "\<exists>s. map_of (to_encode now (login_claims u)) ''sub'' = Some (PStr s) \<and>
             py_int_str s = Some (id' u)"
  using py_int_str_py_str [OF assms]
  by (simp add: to_encode_def login_claims_def Let_def map_of_dict_update)

section \<open>Authorization gate\<close>

text \<open>
  C1. The guard bound to \<open>(action, resource)\<close> rejects with 401 when no user context is
  attached. With a context attached, the role \<open>ADMIN\<close> is allowed whatever the
  permissions are; any other role is allowed exactly when the string
  \<open>action:resource\<close> is an element of the permission list, compared by equality, and is
  rejected with 403 otherwise. Both copies of the guard behave alike.
\<close>

theorem permission_checker_spec:
  "permission_checker action resource None = Inl (HTTPException 401 ''Authentication required'')
   \<and> (a \<noteq> [] \<and> dict_get a ''role'' PNone = PStr ''ADMIN'' \<longrightarrow>
        permission_checker action resource (Some a) = Inr True)
   \<and> (u \<noteq> [] \<and> dict_get u ''role'' PNone \<noteq> PStr ''ADMIN'' \<and>
      dict_get u ''permissions'' (PList []) = PList ps \<longrightarrow>
        permission_checker action resource (Some u) =
          (if PStr (action @ '':'' @ resource) \<in> set ps then Inr True
           else Inl (HTTPException 403 ''You do not have permission to perform this action'')))
   \<and> permission_checker_decorators action resource = permission_checker action resource"
  by (auto simp: permission_checker_def permission_checker_decorators_def fun_eq_iff Let_def)

theorem permission_checker_spec_witness:
  "[(''id'', PInt 1), (''role'', PStr ''ADMIN''), (''permissions'', PList [PStr ''admin:*''])] \<noteq> []
   \<and> dict_get [(''id'', PInt 1), (''role'', PStr ''ADMIN''), (''permissions'', PList [PStr ''admin:*''])]
        ''role'' PNone = PStr ''ADMIN''
   \<and> permission_checker ''edit'' ''courses''
        (Some [(''id'', PInt 1), (''role'', PStr ''ADMIN''), (''permissions'', PList [PStr ''admin:*''])])
      = Inr True
   \<and> [(''id'', PInt 7), (''role'', PStr ''STUDENT''),
       (''permissions'', PList [PStr ''view:student_dashboard''])] \<noteq> []
   \<and> dict_get [(''id'', PInt 7), (''role'', PStr ''STUDENT''),
       (''permissions'', PList [PStr ''view:student_dashboard''])] ''role'' PNone \<noteq> PStr ''ADMIN''
   \<and> dict_get [(''id'', PInt 7), (''role'', PStr ''STUDENT''),
       (''permissions'', PList [PStr ''view:student_dashboard''])] ''permissions'' (PList [])
      = PList [PStr ''view:student_dashboard'']
   \<and> permission_checker ''edit'' ''courses''
        (Some [(''id'', PInt 7), (''role'', PStr ''STUDENT''),
               (''permissions'', PList [PStr ''view:student_dashboard''])])
      = Inl (HTTPException 403 ''You do not have permission to perform this action'')"
  using permission_checker_spec [of "''edit''" "''courses''"
      "[(''id'', PInt 1), (''role'', PStr ''ADMIN''), (''permissions'', PList [PStr ''admin:*''])]"
      "[(''id'', PInt 7), (''role'', PStr ''STUDENT''),
        (''permissions'', PList [PStr ''view:student_dashboard''])]"
      "[PStr ''view:student_dashboard'']"]
  by (simp add: dict_get_def)

section \<open>Authentication gate: the header\<close>

text \<open>
  C3. On a request that is not exempt, the gate answers 401 and does not call the next
  stage, in this order: header absent (or empty), reason \<open>Authorization header missing\<close>;
  header not starting with \<open>Bearer \<close>, reason \<open>Invalid authorization format\<close>; bearer
  value empty after stripping whitespace, reason \<open>Token not provided\<close>.
\<close>

theorem dispatch_rejects_bad_header:
  assumes "\<not> exempt req"
  shows "(authorization req = None \<or> authorization req = Some [] \<longrightarrow>
            dispatch lib SECRET_KEY now req =
              Return (JSONResponse 401 [(''detail'', PStr ''Authorization header missing'')]))
       \<and> (\<forall>h. authorization req = Some h \<and> h \<noteq> [] \<and> \<not> startswith h ''Bearer '' \<longrightarrow>
            dispatch lib SECRET_KEY now req =
              Return (JSONResponse 401 [(''detail'', PStr ''Invalid authorization format'')]))
       \<and> (\<forall>h rest. authorization req = Some h \<and> startswith h ''Bearer '' \<and>
            py_index (py_split1 h) 1 = Inr rest \<and> py_strip rest = [] \<longrightarrow>
            dispatch lib SECRET_KEY now req =
              Return (JSONResponse 401 [(''detail'', PStr ''Token not provided'')]))"
  using assms
  by (auto simp: dispatch_def exempt_def unauthorized_def detail_def startswith_def)

theorem dispatch_rejects_bad_header_witness:
  "\<not> exempt (protected_request None)
   \<and> dispatch (single_token_jose ''tok'' ''key'' []) ''key'' 0 (protected_request None)
      = Return (JSONResponse 401 [(''detail'', PStr ''Authorization header missing'')])
   \<and> \<not> startswith ''Basic abc'' ''Bearer ''
   \<and> dispatch (single_token_jose ''tok'' ''key'' []) ''key'' 0 (protected_request (Some ''Basic abc''))
      = Return (JSONResponse 401 [(''detail'', PStr ''Invalid authorization format'')])
   \<and> startswith ''Bearer   '' ''Bearer ''
   \<and> py_index (py_split1 ''Bearer   '') 1 = Inr ''  '' \<and> py_strip ''  '' = []
   \<and> dispatch (single_token_jose ''tok'' ''key'' []) ''key'' 0 (protected_request (Some ''Bearer   ''))
      = Return (JSONResponse 401 [(''detail'', PStr ''Token not provided'')])"
  using
    dispatch_rejects_bad_header [of "protected_request None"
      "single_token_jose ''tok'' ''key'' []" "''key''" 0]
    dispatch_rejects_bad_header [of "protected_request (Some ''Basic abc'')"
      "single_token_jose ''tok'' ''key'' []" "''key''" 0]
    dispatch_rejects_bad_header [of "protected_request (Some ''Bearer   '')"
      "single_token_jose ''tok'' ''key'' []" "''key''" 0]
  by (simp add: exempt_def protected_request_def PUBLIC_PATHS_def startswith_def py_split1_def
        py_index_def py_strip_def py_isspace_def)

section \<open>Token codec: failures\<close>

text \<open>
  C4, as amended. \<open>decode_access_token\<close> returns the payload when \<open>jwt.decode\<close>
  returns one, and \<open>None\<close> whenever \<open>jwt.decode\<close> raises \<open>JWTError\<close> or one of its
  subclasses, which is how the library reports a bad signature, a malformed payload and
  an expired token. A \<open>JWTError\<close> never reaches the caller.
\<close>

theorem decode_access_token_outcomes:
  "(jwt_decode lib token SECRET_KEY [ALGORITHM] now = Inr payload \<longrightarrow>
      decode_access_token lib SECRET_KEY now token = Inr (Some payload))
   \<and> (jwt_decode lib token SECRET_KEY [ALGORITHM] now = Inl e \<and> isinstance_JWTError e \<longrightarrow>
      decode_access_token lib SECRET_KEY now token = Inr None)
   \<and> (decode_access_token lib SECRET_KEY now token = Inl x \<longrightarrow> \<not> isinstance_JWTError x)"
  by (auto simp: decode_access_token_def split: sum.splits if_splits)

theorem decode_access_token_outcomes_witness:
  "jwt_decode (single_token_jose ''tok'' ''key'' [(''sub'', PStr ''42''), (''exp'', PInt 100)])
     ''tok'' ''key'' [ALGORITHM] 0 = Inr [(''sub'', PStr ''42''), (''exp'', PInt 100)]
   \<and> decode_access_token
        (single_token_jose ''tok'' ''key'' [(''sub'', PStr ''42''), (''exp'', PInt 100)])
        ''key'' 0 ''tok'' = Inr (Some [(''sub'', PStr ''42''), (''exp'', PInt 100)])
   \<and> jwt_decode (single_token_jose ''tok'' ''key'' [(''sub'', PStr ''42''), (''exp'', PInt 100)])
        ''forged'' ''key'' [ALGORITHM] 0 = Inl JWTError
   \<and> isinstance_JWTError JWTError
   \<and> decode_access_token
        (single_token_jose ''tok'' ''key'' [(''sub'', PStr ''42''), (''exp'', PInt 100)])
        ''key'' 0 ''forged'' = Inr None
   \<and> jwt_decode (single_token_jose ''tok'' ''key'' [(''sub'', PStr ''42''), (''exp'', PInt 100)])
        ''tok'' ''key'' [ALGORITHM] 200000000 = Inl ExpiredSignatureError
   \<and> isinstance_JWTError ExpiredSignatureError
   \<and> decode_access_token
        (single_token_jose ''tok'' ''key'' [(''sub'', PStr ''42''), (''exp'', PInt 100)])
        ''key'' 200000000 ''tok'' = Inr None
   \<and> decode_access_token
        (raises_on_nested_header
           (single_token_jose ''tok'' ''key'' [(''sub'', PStr ''42''), (''exp'', PInt 100)]))
        ''key'' 0 nested_header_token = Inl RecursionError
   \<and> \<not> isinstance_JWTError RecursionError"
  using
    decode_access_token_outcomes
      [where lib = "single_token_jose ''tok'' ''key'' [(''sub'', PStr ''42''), (''exp'', PInt 100)]"
         and token = "''tok''" and SECRET_KEY = "''key''" and now = 0
         and payload = "[(''sub'', PStr ''42''), (''exp'', PInt 100)]"]
    decode_access_token_outcomes
      [where lib = "single_token_jose ''tok'' ''key'' [(''sub'', PStr ''42''), (''exp'', PInt 100)]"
         and token = "''forged''" and SECRET_KEY = "''key''" and now = 0 and e = JWTError]
    decode_access_token_outcomes
      [where lib = "single_token_jose ''tok'' ''key'' [(''sub'', PStr ''42''), (''exp'', PInt 100)]"
         and token = "''tok''" and SECRET_KEY = "''key''" and now = 200000000
         and e = ExpiredSignatureError]
    decode_access_token_outcomes
      [where lib = "raises_on_nested_header
           (single_token_jose ''tok'' ''key'' [(''sub'', PStr ''42''), (''exp'', PInt 100)])"
         and token = nested_header_token and SECRET_KEY = "''key''" and now = 0
         and x = RecursionError]
  by (simp add: single_token_jose_def ALGORITHM_def timegm_def decode_access_token_def
        raises_on_nested_header_def)

text \<open>
  C4 as stated fails: on a token whose header is nested too deep the library raises
  \<open>RecursionError\<close>, which \<open>except JWTError\<close> does not catch, so the exception
  reaches the caller of \<open>decode_access_token\<close>.
\<close>

theorem decode_access_token_raises_counterexample:
  "decode_access_token
     (raises_on_nested_header
        (single_token_jose ''tok'' ''key'' [(''sub'', PStr ''42''), (''exp'', PInt 100)]))
     ''key'' 0 nested_header_token = Inl RecursionError"
  by (simp add: decode_access_token_def raises_on_nested_header_def)

section \<open>Authentication gate: rejected tokens\<close>

text \<open>
  C10. The gate never answers \<open>Invalid or expired token\<close>: the branch that would is
  behind \<open>except JWTError\<close>, and \<open>decode_access_token\<close> has already turned every such
  exception into \<open>None\<close>. A token that \<open>jwt.decode\<close> refuses with \<open>JWTError\<close> or a
  subclass is answered 401 with the reason \<open>Invalid token payload\<close>.
\<close>

theorem dispatch_rejected_token_reason:
  "dispatch lib SECRET_KEY now req \<noteq>
     Return (JSONResponse 401 [(''detail'', PStr ''Invalid or expired token'')])
   \<and> (\<not> exempt req \<and> authorization req = Some h \<and> startswith h ''Bearer '' \<and>
      py_index (py_split1 h) 1 = Inr rest \<and> py_strip rest = token \<and> token \<noteq> [] \<and>
      jwt_decode lib token SECRET_KEY [ALGORITHM] now = Inl e \<and> isinstance_JWTError e \<longrightarrow>
        dispatch lib SECRET_KEY now req =
          Return (JSONResponse 401 [(''detail'', PStr ''Invalid token payload'')]))"
proof (intro conjI impI)
  show "dispatch lib SECRET_KEY now req \<noteq>
     Return (JSONResponse 401 [(''detail'', PStr ''Invalid or expired token'')])"
    by (auto simp: dispatch_def unauthorized_def detail_def Let_def
          dest: decode_access_token_not_JWTError split: option.splits sum.splits)
next
  assume a: "\<not> exempt req \<and> authorization req = Some h \<and> startswith h ''Bearer '' \<and>
      py_index (py_split1 h) 1 = Inr rest \<and> py_strip rest = token \<and> token \<noteq> [] \<and>
      jwt_decode lib token SECRET_KEY [ALGORITHM] now = Inl e \<and> isinstance_JWTError e"
  then have d: "decode_access_token lib SECRET_KEY now token = Inr None"
    by (simp add: decode_access_token_def)
  from a have "h \<noteq> []" by (auto simp: startswith_def)
  with a d show "dispatch lib SECRET_KEY now req =
          Return (JSONResponse 401 [(''detail'', PStr ''Invalid token payload'')])"
    by (auto simp: dispatch_def exempt_def unauthorized_def detail_def Let_def)
qed

theorem dispatch_rejected_token_reason_witness:
  "\<not> exempt (protected_request (Some ''Bearer tok''))
   \<and> startswith ''Bearer tok'' ''Bearer ''
   \<and> py_index (py_split1 ''Bearer tok'') 1 = Inr ''tok'' \<and> py_strip ''tok'' = ''tok''
   \<and> jwt_decode (single_token_jose ''tok'' ''key'' [(''sub'', PStr ''42''), (''exp'', PInt 100)])
        ''tok'' ''key'' [ALGORITHM] 200000000 = Inl ExpiredSignatureError
   \<and> isinstance_JWTError ExpiredSignatureError
   \<and> dispatch (single_token_jose ''tok'' ''key'' [(''sub'', PStr ''42''), (''exp'', PInt 100)])
        ''key'' 200000000 (protected_request (Some ''Bearer tok''))
      = Return (JSONResponse 401 [(''detail'', PStr ''Invalid token payload'')])"
  using dispatch_rejected_token_reason
    [of "single_token_jose ''tok'' ''key'' [(''sub'', PStr ''42''), (''exp'', PInt 100)]"
        "''key''" 200000000 "protected_request (Some ''Bearer tok'')" "''Bearer tok''" "''tok''"
        "''tok''" ExpiredSignatureError]
  by (simp add: exempt_def protected_request_def PUBLIC_PATHS_def startswith_def py_split1_def
        py_index_def py_strip_def py_isspace_def single_token_jose_def ALGORITHM_def timegm_def)

section \<open>Authentication gate: the user context\<close>

text \<open>
  C5, as amended. On a request that is not exempt and carries a bearer token that
  \<open>decode_access_token\<close> accepts, if the \<open>sub\<close> claim is a string that \<open>int\<close> accepts,
  the gate calls the next stage with the user context attached: \<open>id\<close> is that integer,
  \<open>role\<close> is the role claim or \<open>USER\<close> when there is none, \<open>permissions\<close> is the
  permissions claim or the empty list when there is none.
\<close>

theorem dispatch_attaches_identity:
  assumes "\<not> exempt req"
    and "authorization req = Some h" and "startswith h ''Bearer ''"
    and "py_index (py_split1 h) 1 = Inr rest" and "py_strip rest = token" and "token \<noteq> []"
    and "decode_access_token lib SECRET_KEY now token = Inr (Some payload)"
    and "map_of payload ''sub'' = Some (PStr s)" and "py_int_str s = Some i"
  shows "dispatch lib SECRET_KEY now req =
           CallNext (req\<lparr>state_user := Some
             [(''id'', PInt i),
              (''role'', case map_of payload ''role'' of None \<Rightarrow> PStr ''USER'' | Some r \<Rightarrow> r),
              (''permissions'',
                 case map_of payload ''permissions'' of None \<Rightarrow> PList [] | Some p \<Rightarrow> p)]\<rparr>)"
proof -
  from assms(3) have h: "h \<noteq> []" by (auto simp: startswith_def)
  from assms(8) have p: "payload \<noteq> []" by auto
  from assms(9) have s: "s \<noteq> []" by (rule py_int_str_nonempty)
  from assms(1) have e: "method req \<noteq> ''OPTIONS''" "\<not> list_ex (startswith (path req)) PUBLIC_PATHS"
    by (simp_all add: exempt_def)
  show ?thesis
    using assms(2-9) h p s e
    by (simp add: dispatch_def dict_get_def Let_def)
qed

theorem dispatch_attaches_identity_witness:
  "\<not> exempt (protected_request (Some ''Bearer tok''))
   \<and> startswith ''Bearer tok'' ''Bearer ''
   \<and> py_index (py_split1 ''Bearer tok'') 1 = Inr ''tok'' \<and> py_strip ''tok'' = ''tok''
   \<and> decode_access_token
        (single_token_jose ''tok'' ''key'' [(''sub'', PStr ''42''), (''role'', PStr ''STUDENT'')])
        ''key'' 0 ''tok'' = Inr (Some [(''sub'', PStr ''42''), (''role'', PStr ''STUDENT'')])
   \<and> py_int_str ''42'' = Some 42
   \<and> dispatch
        (single_token_jose ''tok'' ''key'' [(''sub'', PStr ''42''), (''role'', PStr ''STUDENT'')])
        ''key'' 0 (protected_request (Some ''Bearer tok''))
      = CallNext ((protected_request (Some ''Bearer tok''))\<lparr>state_user := Some
          [(''id'', PInt 42), (''role'', PStr ''STUDENT''), (''permissions'', PList [])]\<rparr>)"
  using dispatch_attaches_identity
    [of "protected_request (Some ''Bearer tok'')" "''Bearer tok''" "''tok''" "''tok''"
        "single_token_jose ''tok'' ''key'' [(''sub'', PStr ''42''), (''role'', PStr ''STUDENT'')]"
        "''key''" 0 "[(''sub'', PStr ''42''), (''role'', PStr ''STUDENT'')]" "''42''" 42]
  by (simp add: exempt_def protected_request_def PUBLIC_PATHS_def startswith_def py_split1_def
        py_index_def py_strip_def py_isspace_def single_token_jose_def ALGORITHM_def
        decode_access_token_def py_int_str_def py_int_strip_def py_int_isspace_def
        is_digit_def digit_val_def decimal_value_def)

text \<open>
  C5 as stated fails: a token that validates and carries the subject \<open>abc\<close> makes
  \<open>int(user_id)\<close> raise \<open>ValueError\<close>, which nothing catches.
\<close>

theorem dispatch_non_numeric_subject_counterexample:
  "\<not> exempt (protected_request (Some ''Bearer tok''))
   \<and> decode_access_token (single_token_jose ''tok'' ''key'' [(''sub'', PStr ''abc'')])
        ''key'' 0 ''tok'' = Inr (Some [(''sub'', PStr ''abc'')])
   \<and> dispatch (single_token_jose ''tok'' ''key'' [(''sub'', PStr ''abc'')]) ''key'' 0
        (protected_request (Some ''Bearer tok'')) = Raise ValueError"
  by (simp add: exempt_def protected_request_def PUBLIC_PATHS_def startswith_def py_split1_def
        py_index_def py_strip_def py_isspace_def single_token_jose_def ALGORITHM_def
        decode_access_token_def py_int_str_def py_int_strip_def py_int_isspace_def
        is_digit_def digit_val_def decimal_value_def dispatch_def dict_get_def)

section \<open>Token codec: expiry and round trip\<close>

text \<open>
  C8, as amended. Expiry is compared in whole seconds. A token that carries an integer
  \<open>exp\<close> claim earlier than the whole second of the validation time makes
  \<open>decode_access_token\<close> return \<open>None\<close>, whether its signature verifies under the
  secret or not.
\<close>

theorem decode_access_token_expired:
  assumes "verifies_carried_claims sg"
    and "claims_of sg token = Some c"
    and "map_of c ''exp'' = Some (PInt e)"
    and "e < timegm now"
  shows "decode_access_token (spec_jose sg) SECRET_KEY now token = Inr None"
proof (cases "verify_token sg token SECRET_KEY [ALGORITHM]")
  case None
  then show ?thesis by (simp add: decode_access_token_def spec_jose_def)
next
  case (Some payload)
  with assms(1) have "claims_of sg token = Some payload"
    unfolding verifies_carried_claims_def by blast
  with assms(2) have "payload = c" by simp
  with Some assms(3,4) show ?thesis by (simp add: decode_access_token_def spec_jose_def)
qed

theorem decode_access_token_expired_witness:
  "verifies_carried_claims
     (single_token_signing ''tok'' ''key'' [(''sub'', PStr ''42''), (''exp'', PInt 100)])
   \<and> claims_of
        (single_token_signing ''tok'' ''key'' [(''sub'', PStr ''42''), (''exp'', PInt 100)]) ''tok''
      = Some [(''sub'', PStr ''42''), (''exp'', PInt 100)]
   \<and> map_of [(''sub'', PStr ''42''), (''exp'', PInt 100)] ''exp'' = Some (PInt 100)
   \<and> 100 < timegm 101000000
   \<and> verify_token
        (single_token_signing ''tok'' ''key'' [(''sub'', PStr ''42''), (''exp'', PInt 100)])
        ''tok'' ''key'' [ALGORITHM] = Some [(''sub'', PStr ''42''), (''exp'', PInt 100)]
   \<and> decode_access_token
        (spec_jose (single_token_signing ''tok'' ''key'' [(''sub'', PStr ''42''), (''exp'', PInt 100)]))
        ''key'' 101000000 ''tok'' = Inr None
   \<and> verify_token
        (single_token_signing ''tok'' ''key'' [(''sub'', PStr ''42''), (''exp'', PInt 100)])
        ''tok'' ''another key'' [ALGORITHM] = None
   \<and> decode_access_token
        (spec_jose (single_token_signing ''tok'' ''key'' [(''sub'', PStr ''42''), (''exp'', PInt 100)]))
        ''another key'' 101000000 ''tok'' = Inr None"
  using
    decode_access_token_expired
      [where sg = "single_token_signing ''tok'' ''key'' [(''sub'', PStr ''42''), (''exp'', PInt 100)]"
         and token = "''tok''" and c = "[(''sub'', PStr ''42''), (''exp'', PInt 100)]"
         and e = 100 and now = 101000000 and SECRET_KEY = "''key''"]
    decode_access_token_expired
      [where sg = "single_token_signing ''tok'' ''key'' [(''sub'', PStr ''42''), (''exp'', PInt 100)]"
         and token = "''tok''" and c = "[(''sub'', PStr ''42''), (''exp'', PInt 100)]"
         and e = 100 and now = 101000000 and SECRET_KEY = "''another key''"]
    single_token_signing_carried
      [of "''tok''" "''key''" "[(''sub'', PStr ''42''), (''exp'', PInt 100)]"]
  by (simp add: single_token_signing_def timegm_def ALGORITHM_def)

text \<open>
  C8 as stated fails: a token with \<open>exp\<close> 100, validated at 100.999999 seconds, is past
  its expiry instant and is still accepted, since both fall in the same second.
\<close>

theorem decode_access_token_same_second_counterexample:
  "(100::int) * 1000000 < 100999999
   \<and> decode_access_token
        (spec_jose (single_token_signing ''tok'' ''key'' [(''sub'', PStr ''42''), (''exp'', PInt 100)]))
        ''key'' 100999999 ''tok'' = Inr (Some [(''sub'', PStr ''42''), (''exp'', PInt 100)])"
  by (simp add: decode_access_token_def spec_jose_def single_token_signing_def ALGORITHM_def
        timegm_def)

text \<open>
  C2. A token issued at \<open>now\<close> for a subject, a role and a permission list, whose
  signature verifies under the secret that signed it, and decoded no later than \<open>now\<close>
  plus 60 minutes, yields a payload with the same \<open>sub\<close>, \<open>role\<close> and \<open>permissions\<close>.
\<close>

theorem create_then_decode_roundtrip:
  assumes "signature_verifies sg
             (jose_payload (to_encode now [(''sub'', PStr sub), (''role'', PStr r),
                                           (''permissions'', PList (map PStr perms))]))
             SECRET_KEY ALGORITHM"
    and "t \<le> now + timedelta_minutes ACCESS_TOKEN_EXPIRE_MINUTES"
  shows "\<exists>token payload.
           create_access_token (spec_jose sg) SECRET_KEY now
             [(''sub'', PStr sub), (''role'', PStr r),
              (''permissions'', PList (map PStr perms))] = Inr token \<and>
           decode_access_token (spec_jose sg) SECRET_KEY t token = Inr (Some payload) \<and>
           map_of payload ''sub'' = Some (PStr sub) \<and>
           map_of payload ''role'' = Some (PStr r) \<and>
           map_of payload ''permissions'' = Some (PList (map PStr perms))"
proof -
  let ?data = "[(''sub'', PStr sub), (''role'', PStr r),
                (''permissions'', PList (map PStr perms))]"
  let ?expire = "now + timedelta_minutes ACCESS_TOKEN_EXPIRE_MINUTES"
  let ?payload = "jose_payload (to_encode now ?data)"
  let ?token = "sign_claims sg ?payload SECRET_KEY ALGORITHM"
  have "map_of (to_encode now ?data) ''exp'' = Some (PDatetime ?expire)"
    by (simp add: to_encode_def Let_def map_of_dict_update)
  then have exp: "map_of ?payload ''exp'' = Some (PInt (timegm ?expire))"
    by (rule map_of_jose_payload_exp)
  have fresh: "\<not> timegm ?expire < timegm t"
    using timegm_mono [OF assms(2)] by simp
  have ver: "verify_token sg ?token SECRET_KEY [ALGORITHM] = Some ?payload"
    using assms(1) by (simp add: signature_verifies_def)
  have keep: "map_of ?payload k = map_of ?data k"
    if "k \<in> {''sub'', ''role'', ''permissions''}" for k
  proof -
    have "map_of (to_encode now ?data) k = map_of ?data k"
      using that by (auto simp: to_encode_def Let_def map_of_dict_update)
    moreover have "\<forall>d. map_of ?data k \<noteq> Some (PDatetime d)"
      using that by auto
    moreover have "k \<notin> set [''exp'', ''iat'', ''nbf'']" using that by auto
    ultimately show ?thesis by (simp add: map_of_jose_payload_other)
  qed
  have "create_access_token (spec_jose sg) SECRET_KEY now ?data = Inr ?token"
    by (simp add: create_access_token_def spec_jose_def)
  moreover have "decode_access_token (spec_jose sg) SECRET_KEY t ?token = Inr (Some ?payload)"
    using ver exp fresh by (simp add: decode_access_token_def spec_jose_def)
  moreover have "map_of ?payload ''sub'' = Some (PStr sub)"
    "map_of ?payload ''role'' = Some (PStr r)"
    "map_of ?payload ''permissions'' = Some (PList (map PStr perms))"
    by (simp_all add: keep)
  ultimately show ?thesis by blast
qed

theorem create_then_decode_roundtrip_witness:
  "signature_verifies
     (single_token_signing ''tok'' ''key''
        [(''sub'', PStr ''42''), (''role'', PStr ''STUDENT''),
         (''permissions'', PList [PStr ''view:student_dashboard'']), (''exp'', PInt 3600)])
     (jose_payload (to_encode 0 [(''sub'', PStr ''42''), (''role'', PStr ''STUDENT''),
                   (''permissions'', PList (map PStr [''view:student_dashboard'']))]))
     ''key'' ALGORITHM
   \<and> (1800000000::int) \<le> 0 + timedelta_minutes ACCESS_TOKEN_EXPIRE_MINUTES
   \<and> create_access_token
        (spec_jose (single_token_signing ''tok'' ''key''
           [(''sub'', PStr ''42''), (''role'', PStr ''STUDENT''),
            (''permissions'', PList [PStr ''view:student_dashboard'']), (''exp'', PInt 3600)]))
        ''key'' 0
        [(''sub'', PStr ''42''), (''role'', PStr ''STUDENT''),
         (''permissions'', PList (map PStr [''view:student_dashboard'']))] = Inr ''tok''
   \<and> (\<exists>payload.
         decode_access_token
           (spec_jose (single_token_signing ''tok'' ''key''
              [(''sub'', PStr ''42''), (''role'', PStr ''STUDENT''),
               (''permissions'', PList [PStr ''view:student_dashboard'']), (''exp'', PInt 3600)]))
           ''key'' 1800000000 ''tok'' = Inr (Some payload) \<and>
         map_of payload ''sub'' = Some (PStr ''42'') \<and>
         map_of payload ''role'' = Some (PStr ''STUDENT'') \<and>
         map_of payload ''permissions'' = Some (PList (map PStr [''view:student_dashboard''])))"
proof -
  have sv: "signature_verifies
     (single_token_signing ''tok'' ''key''
        [(''sub'', PStr ''42''), (''role'', PStr ''STUDENT''),
         (''permissions'', PList [PStr ''view:student_dashboard'']), (''exp'', PInt 3600)])
     (jose_payload (to_encode 0 [(''sub'', PStr ''42''), (''role'', PStr ''STUDENT''),
                   (''permissions'', PList (map PStr [''view:student_dashboard'']))]))
     ''key'' ALGORITHM"
    by (simp add: signature_verifies_def single_token_signing_def to_encode_def jose_payload_def
          ALGORITHM_def ACCESS_TOKEN_EXPIRE_MINUTES_def timedelta_minutes_def timegm_def)
  have le: "(1800000000::int) \<le> 0 + timedelta_minutes ACCESS_TOKEN_EXPIRE_MINUTES"
    by (simp add: ACCESS_TOKEN_EXPIRE_MINUTES_def timedelta_minutes_def)
  have tok: "create_access_token
        (spec_jose (single_token_signing ''tok'' ''key''
           [(''sub'', PStr ''42''), (''role'', PStr ''STUDENT''),
            (''permissions'', PList [PStr ''view:student_dashboard'']), (''exp'', PInt 3600)]))
        ''key'' 0
        [(''sub'', PStr ''42''), (''role'', PStr ''STUDENT''),
         (''permissions'', PList (map PStr [''view:student_dashboard'']))] = Inr ''tok''"
    by (simp add: create_access_token_def spec_jose_def single_token_signing_def)
  from create_then_decode_roundtrip [OF sv le] sv le tok show ?thesis by auto
qed

section \<open>The dependency \<open>get_current_user\<close>\<close>

text \<open>
  C9, as amended. Take a token that \<open>login\<close> has issued at the instant \<open>issued\<close> and
  whose signature verifies, presented as \<open>Bearer token\<close>. Until the second of its expiry
  (\<open>issued\<close> plus 60 minutes) has passed, \<open>get_current_user\<close> raises \<open>KeyError\<close> at
  \<open>payload["user_id"]\<close>, since the payload has \<open>sub\<close> and no \<open>user_id\<close>; afterwards it
  answers 401 with the reason \<open>Invalid token\<close>. Either way it returns no user and the
  lookup \<open>get_by_id\<close> has no part in the outcome.
\<close>

theorem get_current_user_on_issued_token:
  assumes "get_user_for_login db e r = Inr (Some u)"
    and "login (spec_jose sg) SECRET_KEY verify_password issued db e pw r = Inr result"
    and "map_of result ''access_token'' = Some (PStr token)"
    and "signature_verifies sg (jose_payload (to_encode issued (login_claims u)))
           SECRET_KEY ALGORITHM"
    and "CHR '' '' \<notin> set token"
    and "authorization req = Some (''Bearer '' @ token)"
  shows "get_current_user (spec_jose sg) SECRET_KEY now get_by_id req =
           (if timegm (issued + timedelta_minutes ACCESS_TOKEN_EXPIRE_MINUTES) < timegm now
            then Inl (HTTPException 401 ''Invalid token'')
            else Inl (KeyError ''user_id''))"
proof -
  let ?claims = "to_encode issued (login_claims u)"
  let ?payload = "jose_payload ?claims"
  let ?expire = "issued + timedelta_minutes ACCESS_TOKEN_EXPIRE_MINUTES"
  from assms(1,2) have "result =
      [(''access_token'', PStr (sign_claims sg ?payload SECRET_KEY ALGORITHM)),
       (''token_type'', PStr ''bearer''), (''role'', PStr (name (role u)))]"
    by (auto simp: login_def create_access_token_def spec_jose_def split: if_splits)
  with assms(3) have token: "token = sign_claims sg ?payload SECRET_KEY ALGORITHM" by simp
  from assms(4) have ver: "verify_token sg token SECRET_KEY [ALGORITHM] = Some ?payload"
    by (simp add: signature_verifies_def token)
  have "map_of ?claims ''exp'' = Some (PDatetime ?expire)"
    by (simp add: to_encode_def Let_def map_of_dict_update)
  then have exp: "map_of ?payload ''exp'' = Some (PInt (timegm ?expire))"
    by (rule map_of_jose_payload_exp)
  then have ne: "?payload \<noteq> []" by auto
  have "map_of ?claims ''user_id'' = None"
    by (simp add: to_encode_def login_claims_def Let_def map_of_dict_update)
  then have nokey: "map_of ?payload ''user_id'' = None"
    by (simp add: map_of_jose_payload_None)
  have dec: "decode_access_token (spec_jose sg) SECRET_KEY now token =
      (if timegm ?expire < timegm now then Inr None else Inr (Some ?payload))"
    using ver exp by (simp add: decode_access_token_def spec_jose_def)
  have hdr: "startswith (''Bearer '' @ token) ''Bearer ''" by (simp add: startswith_def)
  have tok: "py_index (py_split (''Bearer '' @ token)) 1 = Inr token"
    using assms(5) by (rule py_split_bearer)
  show ?thesis
    using assms(6) hdr tok dec ne nokey
    by (simp add: get_current_user_def dict_item_def)
qed

theorem get_current_user_on_issued_token_witness:
  "get_user_for_login example_db ''ann@crt.example'' ''STUDENT'' = Inr (Some (example_db ! 0))
   \<and> login
        (spec_jose (single_token_signing ''tok'' ''key''
           [(''sub'', PStr ''42''), (''role'', PStr ''STUDENT''),
            (''permissions'', PList [PStr ''view:student_dashboard'']), (''exp'', PInt 3600)]))
        ''key'' example_verify_password 0 example_db ''ann@crt.example'' ''ann'' ''STUDENT''
      = Inr [(''access_token'', PStr ''tok''), (''token_type'', PStr ''bearer''),
             (''role'', PStr ''STUDENT'')]
   \<and> signature_verifies
        (single_token_signing ''tok'' ''key''
           [(''sub'', PStr ''42''), (''role'', PStr ''STUDENT''),
            (''permissions'', PList [PStr ''view:student_dashboard'']), (''exp'', PInt 3600)])
        (jose_payload (to_encode 0 (login_claims (example_db ! 0)))) ''key'' ALGORITHM
   \<and> CHR '' '' \<notin> set ''tok''
   \<and> authorization (protected_request (Some ''Bearer tok'')) = Some (''Bearer '' @ ''tok'')
   \<and> get_current_user
        (spec_jose (single_token_signing ''tok'' ''key''
           [(''sub'', PStr ''42''), (''role'', PStr ''STUDENT''),
            (''permissions'', PList [PStr ''view:student_dashboard'']), (''exp'', PInt 3600)]))
        ''key'' 1800000000 example_get_by_id (protected_request (Some ''Bearer tok''))
      = Inl (KeyError ''user_id'')
   \<and> get_current_user
        (spec_jose (single_token_signing ''tok'' ''key''
           [(''sub'', PStr ''42''), (''role'', PStr ''STUDENT''),
            (''permissions'', PList [PStr ''view:student_dashboard'']), (''exp'', PInt 3600)]))
        ''key'' 7200000000 example_get_by_id (protected_request (Some ''Bearer tok''))
      = Inl (HTTPException 401 ''Invalid token'')"
proof -
  let ?sg = "single_token_signing ''tok'' ''key''
           [(''sub'', PStr ''42''), (''role'', PStr ''STUDENT''),
            (''permissions'', PList [PStr ''view:student_dashboard'']), (''exp'', PInt 3600)]"
  have found: "get_user_for_login example_db ''ann@crt.example'' ''STUDENT'' =
      Inr (Some (example_db ! 0))"
    by (simp add: get_user_for_login_def scalar_one_or_none_def example_db_def)
  have issued: "login (spec_jose ?sg) ''key'' example_verify_password 0 example_db
      ''ann@crt.example'' ''ann'' ''STUDENT''
      = Inr [(''access_token'', PStr ''tok''), (''token_type'', PStr ''bearer''),
             (''role'', PStr ''STUDENT'')]"
    by (simp add: login_def get_user_for_login_def scalar_one_or_none_def example_db_def
          example_verify_password_def create_access_token_def spec_jose_def
          single_token_signing_def)
  have acc: "map_of [(''access_token'', PStr ''tok''), (''token_type'', PStr ''bearer''),
             (''role'', PStr ''STUDENT'')] ''access_token'' = Some (PStr ''tok'')"
    by simp
  have text42: "py_str 42 = ''42''"
    by (simp add: py_str_def py_str_nat.simps digit_char_def)
  have sv: "signature_verifies ?sg (jose_payload (to_encode 0 (login_claims (example_db ! 0))))
      ''key'' ALGORITHM"
    by (simp add: signature_verifies_def single_token_signing_def to_encode_def
          jose_payload_def login_claims_def role_permissions_def example_db_def text42
          ALGORITHM_def ACCESS_TOKEN_EXPIRE_MINUTES_def timedelta_minutes_def timegm_def)
  have sp: "CHR '' '' \<notin> set ''tok''" by simp
  have hdr: "authorization (protected_request (Some ''Bearer tok'')) = Some (''Bearer '' @ ''tok'')"
    by (simp add: protected_request_def)
  have early: "get_current_user (spec_jose ?sg) ''key'' 1800000000 example_get_by_id
      (protected_request (Some ''Bearer tok'')) = Inl (KeyError ''user_id'')"
    using get_current_user_on_issued_token
      [OF found issued acc sv sp hdr, of 1800000000 example_get_by_id]
    by (simp add: ACCESS_TOKEN_EXPIRE_MINUTES_def timedelta_minutes_def timegm_def)
  have late: "get_current_user (spec_jose ?sg) ''key'' 7200000000 example_get_by_id
      (protected_request (Some ''Bearer tok'')) = Inl (HTTPException 401 ''Invalid token'')"
    using get_current_user_on_issued_token
      [OF found issued acc sv sp hdr, of 7200000000 example_get_by_id]
    by (simp add: ACCESS_TOKEN_EXPIRE_MINUTES_def timedelta_minutes_def timegm_def)
  from found issued sv sp hdr early late show ?thesis by blast
qed

text \<open>
  C9 as stated fails: the token \<open>login\<close> has issued at instant 0, presented two hours
  later, is answered 401 \<open>Invalid token\<close> and raises no \<open>KeyError\<close>.
\<close>

theorem get_current_user_expired_counterexample:
  "login
     (spec_jose (single_token_signing ''tok'' ''key''
        [(''sub'', PStr ''42''), (''role'', PStr ''STUDENT''),
         (''permissions'', PList [PStr ''view:student_dashboard'']), (''exp'', PInt 3600)]))
     ''key'' example_verify_password 0 example_db ''ann@crt.example'' ''ann'' ''STUDENT''
     = Inr [(''access_token'', PStr ''tok''), (''token_type'', PStr ''bearer''),
            (''role'', PStr ''STUDENT'')]
   \<and> get_current_user
        (spec_jose (single_token_signing ''tok'' ''key''
           [(''sub'', PStr ''42''), (''role'', PStr ''STUDENT''),
            (''permissions'', PList [PStr ''view:student_dashboard'']), (''exp'', PInt 3600)]))
        ''key'' 7200000000 example_get_by_id (protected_request (Some ''Bearer tok''))
      = Inl (HTTPException 401 ''Invalid token'')"
  by (simp add: login_def get_user_for_login_def scalar_one_or_none_def example_db_def
        example_verify_password_def create_access_token_def spec_jose_def
        single_token_signing_def get_current_user_def protected_request_def startswith_def
        py_index_def decode_access_token_def ALGORITHM_def timegm_def)

section \<open>Credential verifier\<close>

text \<open>
  C6, as amended. \<open>login\<close> fails with 401 when no account matches the identifier and
  role and when the password does not match, and with 403 when the account is inactive or
  unverified, each with its own reason; the registered handler renders the failure as the
  JSON body \<open>{"success": false, "message": reason}\<close> with that status.
\<close>

theorem login_failure_responses:
  "(get_user_for_login db e r = Inr None \<longrightarrow>
      login lib SECRET_KEY verify_password now db e pw r =
        Inl (HTTPException 401 ''Invalid credentials for selected role''))
   \<and> (get_user_for_login db e r = Inr (Some u) \<and> \<not> is_active u \<longrightarrow>
      login lib SECRET_KEY verify_password now db e pw r =
        Inl (HTTPException 403 ''User account is inactive''))
   \<and> (get_user_for_login db e r = Inr (Some u) \<and> is_active u \<and> \<not> is_verified u \<longrightarrow>
      login lib SECRET_KEY verify_password now db e pw r =
        Inl (HTTPException 403 ''User account is not verified''))
   \<and> (get_user_for_login db e r = Inr (Some u) \<and> is_active u \<and> is_verified u \<and>
      \<not> verify_password pw (password_hash u) \<longrightarrow>
      login lib SECRET_KEY verify_password now db e pw r =
        Inl (HTTPException 401 ''Invalid credentials''))
   \<and> http_exception_handler (HTTPException status_code msg) =
        Some (JSONResponse status_code [(''success'', PBool False), (''message'', PStr msg)])"
  by (simp add: login_def)

theorem login_failure_responses_witness:
  "get_user_for_login example_db ''nobody@crt.example'' ''STUDENT'' = Inr None
   \<and> login (single_token_jose ''tok'' ''key'' []) ''key'' example_verify_password 0 example_db
        ''nobody@crt.example'' ''ann'' ''STUDENT''
      = Inl (HTTPException 401 ''Invalid credentials for selected role'')
   \<and> get_user_for_login example_db ''bob@crt.example'' ''STUDENT'' = Inr (Some (example_db ! 1))
   \<and> \<not> is_active (example_db ! 1)
   \<and> login (single_token_jose ''tok'' ''key'' []) ''key'' example_verify_password 0 example_db
        ''bob@crt.example'' ''bob'' ''STUDENT''
      = Inl (HTTPException 403 ''User account is inactive'')
   \<and> get_user_for_login example_db ''5550100'' ''STUDENT'' = Inr (Some (example_db ! 2))
   \<and> is_active (example_db ! 2) \<and> \<not> is_verified (example_db ! 2)
   \<and> login (single_token_jose ''tok'' ''key'' []) ''key'' example_verify_password 0 example_db
        ''5550100'' ''cy'' ''STUDENT''
      = Inl (HTTPException 403 ''User account is not verified'')
   \<and> get_user_for_login example_db ''ann@crt.example'' ''STUDENT'' = Inr (Some (example_db ! 0))
   \<and> is_active (example_db ! 0) \<and> is_verified (example_db ! 0)
   \<and> \<not> example_verify_password ''wrong'' (password_hash (example_db ! 0))
   \<and> login (single_token_jose ''tok'' ''key'' []) ''key'' example_verify_password 0 example_db
        ''ann@crt.example'' ''wrong'' ''STUDENT''
      = Inl (HTTPException 401 ''Invalid credentials'')"
  using
    login_failure_responses [where db = example_db and e = "''nobody@crt.example''"
      and r = "''STUDENT''" and pw = "''ann''" and lib = "single_token_jose ''tok'' ''key'' []"
      and SECRET_KEY = "''key''" and verify_password = example_verify_password and now = 0]
    login_failure_responses [where db = example_db and e = "''bob@crt.example''"
      and r = "''STUDENT''" and pw = "''bob''" and lib = "single_token_jose ''tok'' ''key'' []"
      and SECRET_KEY = "''key''" and verify_password = example_verify_password and now = 0
      and u = "example_db ! 1"]
    login_failure_responses [where db = example_db and e = "''5550100''"
      and r = "''STUDENT''" and pw = "''cy''" and lib = "single_token_jose ''tok'' ''key'' []"
      and SECRET_KEY = "''key''" and verify_password = example_verify_password and now = 0
      and u = "example_db ! 2"]
    login_failure_responses [where db = example_db and e = "''ann@crt.example''"
      and r = "''STUDENT''" and pw = "''wrong''" and lib = "single_token_jose ''tok'' ''key'' []"
      and SECRET_KEY = "''key''" and verify_password = example_verify_password and now = 0
      and u = "example_db ! 0"]
  by (simp add: get_user_for_login_def scalar_one_or_none_def example_db_def
        example_verify_password_def)

text \<open>
  C6 as stated fails: the login of an inactive account is answered 403, and the body has
  the keys \<open>success\<close> and \<open>message\<close>, not \<open>detail\<close>.
\<close>

theorem login_inactive_counterexample:
  "login (single_token_jose ''tok'' ''key'' []) ''key'' example_verify_password 0 example_db
     ''bob@crt.example'' ''bob'' ''STUDENT''
     = Inl (HTTPException 403 ''User account is inactive'')
   \<and> http_exception_handler (HTTPException 403 ''User account is inactive'')
     = Some (JSONResponse 403
         [(''success'', PBool False), (''message'', PStr ''User account is inactive'')])"
  by (simp add: login_def get_user_for_login_def scalar_one_or_none_def example_db_def
        example_verify_password_def)

text \<open>
  C7, as amended. A login that fails because no account matches and a login that fails
  because the password does not match both carry status 401 and a fixed reason that
  depends on nothing the caller sent: \<open>Invalid credentials for selected role\<close> for the
  first, \<open>Invalid credentials\<close> for the second.
\<close>

theorem login_no_match_and_bad_password:
  assumes "get_user_for_login db1 e1 r1 = Inr None"
    and "get_user_for_login db2 e2 r2 = Inr (Some u)"
    and "is_active u" and "is_verified u" and "\<not> verify_password pw2 (password_hash u)"
  shows "login lib SECRET_KEY verify_password now db1 e1 pw1 r1 =
           Inl (HTTPException 401 ''Invalid credentials for selected role'')
       \<and> login lib SECRET_KEY verify_password now db2 e2 pw2 r2 =
           Inl (HTTPException 401 ''Invalid credentials'')"
  using assms by (simp add: login_def)

theorem login_no_match_and_bad_password_witness:
  "get_user_for_login example_db ''nobody@crt.example'' ''STUDENT'' = Inr None
   \<and> get_user_for_login example_db ''ann@crt.example'' ''STUDENT'' = Inr (Some (example_db ! 0))
   \<and> is_active (example_db ! 0) \<and> is_verified (example_db ! 0)
   \<and> \<not> example_verify_password ''wrong'' (password_hash (example_db ! 0))
   \<and> login (single_token_jose ''tok'' ''key'' []) ''key'' example_verify_password 0 example_db
        ''nobody@crt.example'' ''ann'' ''STUDENT''
      = Inl (HTTPException 401 ''Invalid credentials for selected role'')
   \<and> login (single_token_jose ''tok'' ''key'' []) ''key'' example_verify_password 0 example_db
        ''ann@crt.example'' ''wrong'' ''STUDENT''
      = Inl (HTTPException 401 ''Invalid credentials'')"
  using login_no_match_and_bad_password
    [where ?db1.0 = example_db and ?e1.0 = "''nobody@crt.example''" and ?r1.0 = "''STUDENT''"
       and ?db2.0 = example_db and ?e2.0 = "''ann@crt.example''" and ?r2.0 = "''STUDENT''"
       and u = "example_db ! 0" and ?pw1.0 = "''ann''" and ?pw2.0 = "''wrong''"
       and lib = "single_token_jose ''tok'' ''key'' []" and SECRET_KEY = "''key''"
       and verify_password = example_verify_password and now = 0]
  by (simp add: get_user_for_login_def scalar_one_or_none_def example_db_def
        example_verify_password_def)

text \<open>C7 as stated fails: the two reasons are different strings.\<close>

theorem login_messages_differ_counterexample:
  "login (single_token_jose ''tok'' ''key'' []) ''key'' example_verify_password 0 example_db
     ''nobody@crt.example'' ''ann'' ''STUDENT''
     = Inl (HTTPException 401 ''Invalid credentials for selected role'')
   \<and> login (single_token_jose ''tok'' ''key'' []) ''key'' example_verify_password 0 example_db
     ''ann@crt.example'' ''wrong'' ''STUDENT''
     = Inl (HTTPException 401 ''Invalid credentials'')
   \<and> ''Invalid credentials for selected role'' \<noteq> ''Invalid credentials''"
  by (simp add: login_def get_user_for_login_def scalar_one_or_none_def example_db_def
        example_verify_password_def)

end
